theory Spec2Isabelle
  imports Main "HOL-Library.AList"
begin

section \<open>Dependency Monkey: data model\<close>

text \<open>
  The development embeds \<^verbatim>\<open>thoth/adviser/dependency_monkey.py\<close>. Python exceptions are
  values of \<open>exn\<close>; every constructor stands for a subclass of \<^verbatim>\<open>Exception\<close>, so a broad
  \<^verbatim>\<open>except Exception\<close> handler catches all of them.
\<close>

datatype exn =
    NameError string
  | KeyError string
  | IndexError string
  | TypeError string
  | ValueError string
  | ExternalError string

text \<open>Structured (JSON-like) values: the Amun context and the dictionary form of a project.\<close>

datatype json =
    JNull
  | JBool bool
  | JInt int
  | JStr string
  | JList "json list"
  | JDict "(string \<times> json) list"

text \<open>
  \<^verbatim>\<open>PackageVersion\<close>, \<^verbatim>\<open>Project\<close> and its \<^verbatim>\<open>pipfile_lock\<close> are classes of
  \<^verbatim>\<open>thoth.adviser.python\<close>; the module reads \<^verbatim>\<open>name\<close>, \<^verbatim>\<open>locked_version\<close> and
  \<^verbatim>\<open>hashes\<close> of a package version and appends to \<^verbatim>\<open>hashes\<close>. The manifest is opaque.
\<close>

record package_version =
  name :: string
  locked_version :: string
  hashes :: "string list"

record lockfile =
  packages :: "package_version list"
  dev_packages :: "package_version list"

record project =
  pipfile :: string
  pipfile_lock :: lockfile

text \<open>
  The dependency graph of the specification's data model: package names in discovery order,
  each with its ordered candidate versions, and the project the graph was built from.
\<close>

record dependency_graph =
  dg_project :: project
  dg_candidates :: "(string \<times> package_version list) list"

text \<open>
  Everything the module does to the outside world is recorded, in order, as a trace of events:
  log records (level and message template), the seeding of the process-wide generator of
  module \<^verbatim>\<open>random\<close>, the construction of the dependency graph, every project the walk hands
  to the loop, every hash lookup on the package index, every call of the Amun client, text
  written to the standard output stream, and file-system writes.
\<close>

datatype level = DEBUG | INFO | WARNING | ERROR

datatype event =
    Log level string
  | Seed "int option"
  | FromProject project
  | Generated project
  | GetPackageHashes string string string
  | AmunInspect string "(string \<times> json) list"
  | StdoutWrite string
  | MakeDirs string
  | ToFiles project string string

text \<open>
  The external collaborators, as the functions they compute. \<open>get_package_hashes E i n v\<close> is
  \<^verbatim>\<open>Source(i).get_package_hashes(n, v)\<close>: it raises or returns a sequence of dictionaries from
  digest algorithm to value. \<open>seed_state\<close> is the state of the generator after
  \<^verbatim>\<open>random.seed(s)\<close>, \<open>entropy_state\<close> the state after \<^verbatim>\<open>random.seed(None)\<close> (seeded from
  the operating system), and \<open>coin\<close> draws one probabilistic decision from a generator state.
  \<open>json_dump\<close> is \<^verbatim>\<open>json.dump\<close> with \<^verbatim>\<open>sort_keys=True, indent=2\<close>.
\<close>

record env =
  warehouses :: "string list"
  get_package_hashes :: "string \<Rightarrow> string \<Rightarrow> string \<Rightarrow> exn + (string \<times> string) list list"
  from_project :: "project \<Rightarrow> exn + dependency_graph"
  to_dict :: "project \<Rightarrow> json"
  amun_inspect :: "string \<Rightarrow> (string \<times> json) list \<Rightarrow> exn + (string \<times> string) list"
  json_loads :: "string \<Rightarrow> exn + json"
  json_dump :: "json \<Rightarrow> string"
  isdir :: "string \<Rightarrow> bool"
  seed_state :: "int \<Rightarrow> nat"
  entropy_state :: nat
  coin :: "nat \<Rightarrow> bool \<times> nat"

text \<open>The dictionary \<^verbatim>\<open>_do_dependency_monkey\<close> returns, and what \<^verbatim>\<open>dependency_monkey\<close> returns:
  that dictionary or one of the integer codes 1, 2, 3.\<close>

record result =
  res_output :: "string list"
  res_computed :: int

datatype dm_return = ExitCode int | Stacks result

section \<open>Filling package digests\<close>

text \<open>
  The inner loop of \<^verbatim>\<open>_fill_package_digests\<close>: each entry of the scanned sequence appends
  \<^verbatim>\<open>'sha256:' + entry['sha256']\<close>; an entry without that key raises \<^verbatim>\<open>KeyError\<close>, and the
  hashes appended so far stay in the list.
\<close>

fun append_hashes :: "(string \<times> string) list list \<Rightarrow> string list \<Rightarrow> exn option \<times> string list" where
  "append_hashes [] hs = (None, hs)"
| "append_hashes (entry # scanned) hs =
     (case map_of entry ''sha256'' of
        None \<Rightarrow> (Some (KeyError ''sha256''), hs)
      | Some d \<Rightarrow> append_hashes scanned (hs @ [''sha256:'' @ d]))"

text \<open>
  The outer loop over the chained package versions. The first component of the result is the
  exception that ended the loop, if any; the second is the state of the package versions at
  that point (they are mutated in place); the third is the trace.
\<close>

fun fill_packages ::
  "env \<Rightarrow> string \<Rightarrow> package_version list \<Rightarrow> (exn option \<times> package_version list) \<times> event list" where
  "fill_packages E package_index [] = ((None, []), [])"
| "fill_packages E package_index (pv # rest) =
     (if hashes pv \<noteq> [] then
        (case fill_packages E package_index rest of
           ((r, rest'), evs) \<Rightarrow> ((r, pv # rest'), evs))
      else
        (case get_package_hashes E package_index (name pv) (locked_version pv) of
           Inl e \<Rightarrow> ((Some e, pv # rest), [GetPackageHashes package_index (name pv) (locked_version pv)])
         | Inr scanned_hashes \<Rightarrow>
             (case append_hashes scanned_hashes (hashes pv) of
                (Some e, hs) \<Rightarrow>
                  ((Some e, pv\<lparr>hashes := hs\<rparr> # rest),
                   [GetPackageHashes package_index (name pv) (locked_version pv)])
              | (None, hs) \<Rightarrow>
                  (case fill_packages E package_index rest of
                     ((r, rest'), evs) \<Rightarrow>
                       ((r, pv\<lparr>hashes := hs\<rparr> # rest'),
                        GetPackageHashes package_index (name pv) (locked_version pv) # evs)))))"

definition fill_package_digests :: "env \<Rightarrow> project \<Rightarrow> (exn option \<times> project) \<times> event list" where
  "fill_package_digests E generated_project =
     (case warehouses E of
        [] \<Rightarrow> ((Some (IndexError ''list index out of range''), generated_project), [])
      | package_index # _ \<Rightarrow>
          (case fill_packages E package_index
                  (packages (pipfile_lock generated_project) @
                   dev_packages (pipfile_lock generated_project)) of
             ((r, pvs), evs) \<Rightarrow>
               ((r, generated_project\<lparr>pipfile_lock :=
                      \<lparr>packages = take (length (packages (pipfile_lock generated_project))) pvs,
                       dev_packages = drop (length (packages (pipfile_lock generated_project))) pvs\<rparr>\<rparr>),
                evs)))"

section \<open>Names, strings and paths\<close>

text \<open>
  The names the module binds at top level: its five \<^verbatim>\<open>import\<close> statements, the three names
  imported from \<^verbatim>\<open>thoth.adviser.python\<close>, the logger and its own functions. Reading any other
  global name that is not a builtin raises \<^verbatim>\<open>NameError\<close>. The functions below take the
  namespace as a parameter \<open>ns\<close>, so that what a function does when a name is bound and what
  it does in this module can both be stated.
\<close>

definition module_globals :: "string list" where
  "module_globals =
     [''random'', ''os'', ''partial'', ''typing'', ''logging'',
      ''Project'', ''DECISISON_FUNCTIONS'', ''DependencyGraph'', ''_LOGGER'',
      ''_dm_amun_inspect_wrapper'', ''_dm_amun_directory_output'', ''_dm_stdout_output'',
      ''_fill_package_digests'', ''_do_dependency_monkey'', ''dependency_monkey'']"

definition startswith :: "string \<Rightarrow> string \<Rightarrow> bool" where
  "startswith s p = (take (length p) s = p)"

text \<open>\<^verbatim>\<open>os.path.join\<close> with two components, on a POSIX system.\<close>

definition os_path_join :: "string \<Rightarrow> string \<Rightarrow> string" where
  "os_path_join a b =
     (if startswith b ''/'' then b
      else if a = [] \<or> last a = CHR ''/'' then a @ b
      else a @ ''/'' @ b)"

fun decimal :: "nat \<Rightarrow> string" where
  "decimal n =
     (if n < 10 then [''0123456789'' ! n]
      else decimal (n div 10) @ [''0123456789'' ! (n mod 10)])"

declare decimal.simps [simp del]

text \<open>
  The format specification \<^verbatim>\<open>{count:05d}\<close>: the decimal digits, padded with zeros on the left
  to a width of at least five characters (the sign counts), never truncated.
\<close>

definition format_05d :: "int \<Rightarrow> string" where
  "format_05d n =
     (if n < 0 then ''-'' @ replicate (4 - length (decimal (nat (- n)))) CHR ''0'' @ decimal (nat (- n))
      else replicate (5 - length (decimal (nat n))) CHR ''0'' @ decimal (nat n))"

section \<open>Output functions\<close>

type_synonym sink = "project \<Rightarrow> int \<Rightarrow> (exn + string option) \<times> event list"

text \<open>
  \<^verbatim>\<open>_dm_amun_inspect_wrapper\<close>. The assignment \<^verbatim>\<open>context['python'] = ...\<close> is outside the
  \<^verbatim>\<open>try\<close> block; everything after it is inside, so the lookup of the name
  \<^verbatim>\<open>amun_inspect\<close>, the call and the subscript \<^verbatim>\<open>response['inspection_id']\<close> are all caught
  by \<^verbatim>\<open>except Exception\<close>, which logs and falls through to \<^verbatim>\<open>return None\<close>.
\<close>

definition dm_amun_inspect_wrapper ::
  "string list \<Rightarrow> env \<Rightarrow> string \<Rightarrow> json \<Rightarrow> project \<Rightarrow> int \<Rightarrow> (exn + string option) \<times> event list" where
  "dm_amun_inspect_wrapper ns E output context generated_project count =
     (case context of
        JDict kvs \<Rightarrow>
          (let context' = AList.update ''python'' (to_dict E generated_project) kvs in
           if ''amun_inspect'' \<notin> set ns then
             (Inr None, [Log ERROR ''Failed to submit stack to Amun analysis: %s''])
           else
             (case amun_inspect E output context' of
                Inl exc \<Rightarrow>
                  (Inr None,
                   [AmunInspect output context', Log ERROR ''Failed to submit stack to Amun analysis: %s''])
              | Inr response \<Rightarrow>
                  (case map_of response ''inspection_id'' of
                     None \<Rightarrow>
                       (Inr None,
                        [AmunInspect output context',
                         Log ERROR ''Failed to submit stack to Amun analysis: %s''])
                   | Some inspection_id \<Rightarrow>
                       (Inr (Some inspection_id),
                        [AmunInspect output context',
                         Log INFO ''Submitted Amun inspection #%d: %r'',
                         Log DEBUG ''Full Amun response: %s'']))))
      | _ \<Rightarrow> (Inl (TypeError ''object does not support item assignment''), []))"

text \<open>\<^verbatim>\<open>_dm_amun_directory_output\<close>: one directory per stack, holding the two files.\<close>

definition dm_amun_directory_output :: "string \<Rightarrow> project \<Rightarrow> int \<Rightarrow> (exn + string option) \<times> event list" where
  "dm_amun_directory_output output generated_project count =
     (let path = os_path_join output (format_05d count) in
      (Inr (Some path),
       [Log DEBUG ''Writing stack %d'',
        MakeDirs path,
        ToFiles generated_project (os_path_join path ''Pipfile'') (os_path_join path ''Pipfile.lock'')]))"

text \<open>
  \<^verbatim>\<open>_dm_stdout_output\<close>: the callee \<^verbatim>\<open>json.dump\<close> is evaluated first, then the arguments
  \<^verbatim>\<open>generated_project.to_dict()\<close> and \<^verbatim>\<open>sys.stdout\<close>.
\<close>

definition dm_stdout_output :: "string list \<Rightarrow> env \<Rightarrow> project \<Rightarrow> int \<Rightarrow> (exn + string option) \<times> event list" where
  "dm_stdout_output ns E generated_project count =
     (if ''json'' \<notin> set ns then (Inl (NameError ''json''), [])
      else if ''sys'' \<notin> set ns then (Inl (NameError ''sys''), [])
      else (Inr None, [StdoutWrite (json_dump E (to_dict E generated_project))]))"

section \<open>Decision functions and the walk\<close>

type_synonym decision_function = "package_version list \<Rightarrow> nat \<Rightarrow> bool \<times> nat"

text \<open>
  Modelled from the spec: the registry \<^verbatim>\<open>DECISISON_FUNCTIONS\<close> of \<^verbatim>\<open>thoth.adviser.python\<close>
  is not among the sources. The specification gives it two keys: \<^verbatim>\<open>"all"\<close> always continues,
  \<^verbatim>\<open>"sampling"\<close> continues with a fixed probability, drawn from the run's generator. A decision
  function takes the partial assignment and the generator state and returns its verdict and the
  next generator state.
\<close>

definition decision_all :: decision_function where
  "decision_all partial_assignment r = (True, r)"

definition decision_sampling :: "env \<Rightarrow> decision_function" where
  "decision_sampling E partial_assignment r = coin E r"

definition DECISISON_FUNCTIONS :: "env \<Rightarrow> (string \<times> decision_function) list" where
  "DECISISON_FUNCTIONS E = [(''all'', decision_all), (''sampling'', decision_sampling E)]"

text \<open>
  Modelled from the spec: \<^verbatim>\<open>DependencyGraph.walk\<close> is not among the sources. The
  specification describes a depth-first exploration of the product space in assignment order:
  names are taken in graph order, the candidates of a name in their order, and the decision
  function is asked at each partial assignment whether to deepen the path or abandon it. A
  project is produced when every name is pinned; its lock holds the assignment. The walk does
  no scoring and has no effect other than advancing the generator, so the sequence it yields
  lazily is given here as a list together with the final generator state.
\<close>

fun walk_names ::
      "decision_function \<Rightarrow> project \<Rightarrow> (string \<times> package_version list) list \<Rightarrow>
       package_version list \<Rightarrow> nat \<Rightarrow> project list \<times> nat"
  and walk_candidates ::
      "decision_function \<Rightarrow> project \<Rightarrow> package_version list \<Rightarrow>
       (string \<times> package_version list) list \<Rightarrow> package_version list \<Rightarrow> nat \<Rightarrow> project list \<times> nat" where
  "walk_names d base [] assignment r =
     ([base\<lparr>pipfile_lock := \<lparr>packages = assignment, dev_packages = []\<rparr>\<rparr>], r)"
| "walk_names d base (entry # names) assignment r =
     walk_candidates d base (snd entry) names assignment r"
| "walk_candidates d base [] names assignment r = ([], r)"
| "walk_candidates d base (c # candidates) names assignment r =
     (case d (assignment @ [c]) r of
        (go, r1) \<Rightarrow>
          (case (if go then walk_names d base names (assignment @ [c]) r1 else ([], r1)) of
             (found, r2) \<Rightarrow>
               (case walk_candidates d base candidates names assignment r2 of
                  (others, r3) \<Rightarrow> (found @ others, r3))))"

definition walk :: "dependency_graph \<Rightarrow> decision_function \<Rightarrow> nat \<Rightarrow> project list \<times> nat" where
  "walk dependency_graph decision_function r =
     walk_names decision_function (dg_project dependency_graph) (dg_candidates dependency_graph) [] r"

section \<open>The generation loop\<close>

text \<open>
  Lines 107 to 110 of \<^verbatim>\<open>_do_dependency_monkey\<close>: unless the run is a dry run, the output
  function is called with the running count, and a truthy entry (a non-empty string) is
  appended to the recorded output.
\<close>

definition dispatch ::
  "sink \<Rightarrow> bool \<Rightarrow> project \<Rightarrow> int \<Rightarrow> string list \<Rightarrow> (exn + string list) \<times> event list" where
  "dispatch output_function dry_run generated_project computed out =
     (if \<not> dry_run then
        (case output_function generated_project computed of
           (Inl e, evs) \<Rightarrow> (Inl e, evs)
         | (Inr entry, evs) \<Rightarrow>
             (Inr (case entry of
                     None \<Rightarrow> out
                   | Some s \<Rightarrow> if s \<noteq> [] then out @ [s] else out), evs))
      else (Inr out, []))"

text \<open>
  The \<^verbatim>\<open>for\<close> loop over the projects the walk yields, with \<open>computed\<close> and the recorded
  output as loop state. An exception raised by the hash filling or by the output function
  leaves the loop and the function; the result dictionary is then lost.
\<close>

fun dm_loop ::
  "env \<Rightarrow> sink \<Rightarrow> int option \<Rightarrow> bool \<Rightarrow> project list \<Rightarrow> int \<Rightarrow> string list \<Rightarrow>
   (exn + result) \<times> event list" where
  "dm_loop E output_function count dry_run [] computed out =
     (Inr \<lparr>res_output = out, res_computed = computed\<rparr>, [])"
| "dm_loop E output_function count dry_run (generated_project # rest) computed out =
     (case fill_package_digests E generated_project of
        ((Some e, filled), evs) \<Rightarrow> (Inl e, Generated generated_project # evs)
      | ((None, filled), evs) \<Rightarrow>
          (case dispatch output_function dry_run filled (computed + 1) out of
             (Inl e, evs') \<Rightarrow> (Inl e, Generated generated_project # evs @ evs')
           | (Inr out', evs') \<Rightarrow>
               (if (case count of None \<Rightarrow> False | Some c \<Rightarrow> computed + 1 \<ge> c) then
                  (Inr \<lparr>res_output = out', res_computed = computed + 1\<rparr>,
                   Generated generated_project # evs @ evs')
                else
                  (case dm_loop E output_function count dry_run rest (computed + 1) out' of
                     (res, evs'') \<Rightarrow> (res, Generated generated_project # evs @ evs' @ evs'')))))"

definition do_dependency_monkey ::
  "env \<Rightarrow> project \<Rightarrow> sink \<Rightarrow> decision_function \<Rightarrow> int option \<Rightarrow> bool \<Rightarrow> nat \<Rightarrow>
   (exn + result) \<times> event list" where
  "do_dependency_monkey E project output_function decision_function count dry_run r =
     (case from_project E project of
        Inl e \<Rightarrow> (Inl e, [FromProject project])
      | Inr dependency_graph \<Rightarrow>
          (case dm_loop E output_function count dry_run
                  (fst (walk dependency_graph decision_function r)) 0 [] of
             (res, evs) \<Rightarrow> (res, FromProject project # evs)))"

section \<open>The entry point\<close>

text \<open>
  \<^verbatim>\<open>random.seed(seed)\<close> replaces the state of the process-wide generator, whatever it was:
  by a state computed from the seed, or from operating-system entropy when the seed is
  \<^verbatim>\<open>None\<close>.
\<close>

definition random_seed :: "env \<Rightarrow> int option \<Rightarrow> nat \<Rightarrow> nat" where
  "random_seed E seed r0 = (case seed of None \<Rightarrow> entropy_state E | Some s \<Rightarrow> seed_state E s)"

text \<open>Truth value of an optional string: \<^verbatim>\<open>None\<close> and the empty string are falsy.\<close>

definition truthy :: "string option \<Rightarrow> bool" where
  "truthy s = (case s of None \<Rightarrow> False | Some t \<Rightarrow> t \<noteq> [])"

definition run_with ::
  "event list \<Rightarrow> (exn + result) \<times> event list \<Rightarrow> (exn + dm_return) \<times> event list" where
  "run_with emitted r =
     (case r of
        (Inl e, evs) \<Rightarrow> (Inl e, emitted @ evs)
      | (Inr res, evs) \<Rightarrow> (Inr (Stacks res), emitted @ evs))"

text \<open>
  \<^verbatim>\<open>dependency_monkey\<close>. The last argument is the state of the process-wide generator
  before the call.
\<close>

definition dependency_monkey ::
  "string list \<Rightarrow> env \<Rightarrow> project \<Rightarrow> string \<Rightarrow> int option \<Rightarrow> string option \<Rightarrow> bool \<Rightarrow>
   string option \<Rightarrow> int option \<Rightarrow> nat \<Rightarrow> (exn + dm_return) \<times> event list" where
  "dependency_monkey ns E project output seed decision dry_run context count r0 =
     (case (case decision of None \<Rightarrow> None | Some d \<Rightarrow> map_of (DECISISON_FUNCTIONS E) d) of
        None \<Rightarrow> (Inl (ValueError ''Decision function is not known''), [])
      | Some decision_function \<Rightarrow>
          (let r = random_seed E seed r0 in
           if (case count of None \<Rightarrow> False | Some c \<Rightarrow> c \<le> 0) then
             (Inr (ExitCode 3), [Seed seed, Log ERROR ''Number of stacks has to be a positive integer''])
           else if startswith output ''https://'' \<or> startswith output ''http://'' then
             (if truthy context then
                (if ''json'' \<notin> set ns then
                   (Inr (ExitCode 1),
                    [Seed seed,
                     Log ERROR ''Failed to load Amun context that should be passed with generated stacks: %s''])
                 else
                   (case json_loads E (the context) of
                      Inl exc \<Rightarrow>
                        (Inr (ExitCode 1),
                         [Seed seed,
                          Log ERROR ''Failed to load Amun context that should be passed with generated stacks: %s''])
                    | Inr loaded \<Rightarrow>
                        run_with [Seed seed]
                          (do_dependency_monkey E project (dm_amun_inspect_wrapper ns E output loaded)
                             decision_function count dry_run r)))
              else
                run_with [Seed seed, Log WARNING ''Context to Amun API is empty'']
                  (do_dependency_monkey E project (dm_amun_inspect_wrapper ns E output (JDict []))
                     decision_function count dry_run r))
           else if output = ''-'' then
             run_with [Seed seed]
               (do_dependency_monkey E project (dm_stdout_output ns E) decision_function count dry_run r)
           else if truthy context then
             (Inr (ExitCode 2),
              [Seed seed, Log ERROR ''Unable to use context when writing generated projects onto filesystem''])
           else
             run_with (Seed seed # (if \<not> isdir E output then [MakeDirs output] else []))
               (do_dependency_monkey E project (dm_amun_directory_output output)
                  decision_function count dry_run r)))"

section \<open>Vocabulary of the statements\<close>

text \<open>The package versions of a project in the order the hash filling visits them.\<close>

definition all_packages :: "project \<Rightarrow> package_version list" where
  "all_packages p = packages (pipfile_lock p) @ dev_packages (pipfile_lock p)"

text \<open>The hash strings built from a sequence of index entries, in the order of the sequence.\<close>

definition sha256_strings :: "(string \<times> string) list list \<Rightarrow> string list" where
  "sha256_strings scanned = map (\<lambda>entry. ''sha256:'' @ the (map_of entry ''sha256'')) scanned"

text \<open>The lookup the hash filling issues for a package version on index \<open>idx\<close>.\<close>

definition lookup_event :: "string \<Rightarrow> package_version \<Rightarrow> event" where
  "lookup_event idx pv = GetPackageHashes idx (name pv) (locked_version pv)"

text \<open>
  \<open>appended_from_index E idx pv pv'\<close>: \<open>pv'\<close> is \<open>pv\<close>, or \<open>pv\<close> had no hashes and \<open>pv'\<close>
  carries the hash strings of an initial part of what index \<open>idx\<close> returns for it.
  \<open>filled_from_index\<close> is the same with the whole returned sequence.
\<close>

definition appended_from_index :: "env \<Rightarrow> string \<Rightarrow> package_version \<Rightarrow> package_version \<Rightarrow> bool" where
  "appended_from_index E idx pv pv' =
     (pv' = pv \<or>
      (hashes pv = [] \<and>
       (\<exists>scanned k. get_package_hashes E idx (name pv) (locked_version pv) = Inr scanned \<and>
          (\<forall>entry \<in> set (take k scanned). map_of entry ''sha256'' \<noteq> None) \<and>
          pv' = pv\<lparr>hashes := sha256_strings (take k scanned)\<rparr>)))"

definition filled_from_index :: "env \<Rightarrow> string \<Rightarrow> package_version \<Rightarrow> package_version \<Rightarrow> bool" where
  "filled_from_index E idx pv pv' =
     (if hashes pv \<noteq> [] then pv' = pv
      else (\<exists>scanned. get_package_hashes E idx (name pv) (locked_version pv) = Inr scanned \<and>
              (\<forall>entry \<in> set scanned. map_of entry ''sha256'' \<noteq> None) \<and>
              pv' = pv\<lparr>hashes := sha256_strings scanned\<rparr>))"


definition sink_ok :: "sink \<Rightarrow> bool" where
  "sink_ok f = (\<forall>p c. \<exists>entry evs. f p c = (Inr entry, evs))"

text \<open>The project as the hash filling leaves it, and the trace of the filling.\<close>

definition filled :: "env \<Rightarrow> project \<Rightarrow> project" where
  "filled E p = snd (fst (fill_package_digests E p))"

definition fill_events :: "env \<Rightarrow> project \<Rightarrow> event list" where
  "fill_events E p = snd (fill_package_digests E p)"


fun is_Generated :: "event \<Rightarrow> bool" where
  "is_Generated (Generated p) = True"
| "is_Generated ev = False"

text \<open>Events that write to an output: the Amun service, the standard output, the file system.\<close>

fun writes_output :: "event \<Rightarrow> bool" where
  "writes_output (AmunInspect u c) = True"
| "writes_output (StdoutWrite s) = True"
| "writes_output (MakeDirs d) = True"
| "writes_output (ToFiles p a b) = True"
| "writes_output ev = False"

fun is_FromProject :: "event \<Rightarrow> bool" where
  "is_FromProject (FromProject p) = True"
| "is_FromProject ev = False"

text \<open>An output function that does nothing and returns \<^verbatim>\<open>None\<close>.\<close>

definition null_sink :: sink where
  "null_sink generated_project count = (Inr None, [])"

text \<open>
  The projects a run with count bound \<open>count\<close> takes from a walk, the directory of the
  \<open>k\<close>-th stack under a destination, and the trace of one iteration of the loop when the
  destination is a directory.
\<close>

definition bounded :: "int option \<Rightarrow> 'a list \<Rightarrow> 'a list" where
  "bounded count ps = (case count of None \<Rightarrow> ps | Some N \<Rightarrow> take (nat N) ps)"

definition stack_dir :: "string \<Rightarrow> nat \<Rightarrow> string" where
  "stack_dir output k = os_path_join output (format_05d (int k))"

definition stack_events :: "env \<Rightarrow> string \<Rightarrow> nat \<Rightarrow> project \<Rightarrow> event list" where
  "stack_events E output k p =
     Generated p # fill_events E p @
     [Log DEBUG ''Writing stack %d'',
      MakeDirs (stack_dir output k),
      ToFiles (filled E p) (os_path_join (stack_dir output k) ''Pipfile'')
        (os_path_join (stack_dir output k) ''Pipfile.lock'')]"

text \<open>The number a string of decimal digits denotes.\<close>

definition digit_value :: "char \<Rightarrow> nat" where
  "digit_value c = of_char c - 48"

definition nat_of_digits :: "string \<Rightarrow> nat" where
  "nat_of_digits s = foldl (\<lambda>acc c. 10 * acc + digit_value c) 0 s"

section \<open>Example data\<close>

definition flask :: "string \<Rightarrow> package_version" where
  "flask v = \<lparr>name = ''flask'', locked_version = v, hashes = []\<rparr>"

definition p0 :: project where
  "p0 = \<lparr>pipfile = ''flask = \"*\"'', pipfile_lock = \<lparr>packages = [], dev_packages = []\<rparr>\<rparr>"

text \<open>A generated project: one runtime package without hashes, one development package with a hash.\<close>

definition pA :: project where
  "pA = \<lparr>pipfile = ''flask = \"*\"'',
          pipfile_lock = \<lparr>packages = [flask ''1.0''],
                          dev_packages = [\<lparr>name = ''pytest'', locked_version = ''5.0'',
                                            hashes = [''sha256:cc'']\<rparr>]\<rparr>\<rparr>"

definition g0 :: dependency_graph where
  "g0 = \<lparr>dg_project = p0, dg_candidates = [(''flask'', [flask ''1.0'', flask ''1.1'', flask ''2.0''])]\<rparr>"

text \<open>The three stacks the exhaustive walk of the example graph yields, before and after filling.\<close>

definition stack :: "string \<Rightarrow> project" where
  "stack v = \<lparr>pipfile = ''flask = \"*\"'',
               pipfile_lock = \<lparr>packages = [flask v], dev_packages = []\<rparr>\<rparr>"

definition stack_filled :: "string \<Rightarrow> project" where
  "stack_filled v =
     \<lparr>pipfile = ''flask = \"*\"'',
      pipfile_lock = \<lparr>packages = [\<lparr>name = ''flask'', locked_version = v,
                                      hashes = [''sha256:aa'', ''sha256:bb'']\<rparr>],
                      dev_packages = []\<rparr>\<rparr>"

text \<open>
  An environment with one warehouse that knows two digests of every release of the example
  package except release 1.1, for which the lookup fails; an Amun service that accepts every
  submission; a generator whose coin always says no.
\<close>

definition E0 :: env where
  "E0 = \<lparr>warehouses = [''https://pypi.org/simple''],
         get_package_hashes = (\<lambda>idx n v.
            if v = ''1.1'' then Inl (ExternalError ''index unreachable'')
            else Inr [[(''sha256'', ''aa'')], [(''md5'', ''ff''), (''sha256'', ''bb'')]]),
         from_project = (\<lambda>p. Inr g0),
         to_dict = (\<lambda>p. JDict [(''requirements'', JStr (pipfile p))]),
         amun_inspect = (\<lambda>u c. Inr [(''inspection_id'', ''inspection-1'')]),
         json_loads = (\<lambda>s. Inr (JDict [])),
         json_dump = (\<lambda>j. ''{}''),
         isdir = (\<lambda>d. False),
         seed_state = (\<lambda>s. nat \<bar>s\<bar>),
         entropy_state = 0,
         coin = (\<lambda>r. (False, Suc r))\<rparr>"

text \<open>The same environment with an index that answers for every release.\<close>

definition E1 :: env where
  "E1 = E0\<lparr>get_package_hashes := (\<lambda>idx n v.
            Inr [[(''sha256'', ''aa'')], [(''md5'', ''ff''), (''sha256'', ''bb'')]])\<rparr>"

section \<open>Properties of the digest filling\<close>

lemma append_hashes_shape:
  "append_hashes scanned hs = (r, hs') \<Longrightarrow>
   \<exists>k \<le> length scanned. hs' = hs @ sha256_strings (take k scanned) \<and>
      (\<forall>entry \<in> set (take k scanned). map_of entry ''sha256'' \<noteq> None) \<and>
      (r = None \<longrightarrow> k = length scanned)"
proof (induction scanned arbitrary: hs)
  case Nil
  then show ?case by (simp add: sha256_strings_def)
next
  case (Cons entry scanned)
  show ?case
  proof (cases "map_of entry ''sha256''")
    case None
    with Cons.prems have "hs' = hs" "r \<noteq> None" by auto
    then show ?thesis by (intro exI[of _ 0]) (simp add: sha256_strings_def)
  next
    case (Some d)
    with Cons.prems have "append_hashes scanned (hs @ [''sha256:'' @ d]) = (r, hs')" by simp
    from Cons.IH[OF this] obtain k where k: "k \<le> length scanned"
      "hs' = (hs @ [''sha256:'' @ d]) @ sha256_strings (take k scanned)"
      "\<forall>entry \<in> set (take k scanned). map_of entry ''sha256'' \<noteq> None"
      "r = None \<longrightarrow> k = length scanned" by blast
    show ?thesis
      using k Some by (intro exI[of _ "Suc k"]) (simp add: sha256_strings_def)
  qed
qed

lemma fill_packages_length:
  "fill_packages E idx pvs = ((r, pvs'), evs) \<Longrightarrow> length pvs' = length pvs"
  by (induction pvs arbitrary: r pvs' evs)
     (auto split: if_splits sum.splits prod.splits option.splits)

lemma fill_packages_keeps:
  "fill_packages E idx pvs = ((r, pvs'), evs) \<Longrightarrow> i < length pvs \<Longrightarrow>
   hashes (pvs ! i) \<noteq> [] \<Longrightarrow> pvs' ! i = pvs ! i"
proof (induction pvs arbitrary: r pvs' evs i)
  case Nil
  then show ?case by simp
next
  case (Cons pv rest)
  then show ?case
    by (cases i) (auto split: if_splits sum.splits prod.splits option.splits)
qed

lemma fill_packages_events:
  "fill_packages E idx pvs = ((r, pvs'), evs) \<Longrightarrow>
   evs = take (length evs) (map (lookup_event idx) (filter (\<lambda>pv. hashes pv = []) pvs))
   \<and> (r = None \<longrightarrow> evs = map (lookup_event idx) (filter (\<lambda>pv. hashes pv = []) pvs))"
  by (induction pvs arbitrary: r pvs' evs)
     (auto simp: lookup_event_def split: if_splits sum.splits prod.splits option.splits)

lemma fill_packages_appended:
  "fill_packages E idx pvs = ((r, pvs'), evs) \<Longrightarrow>
   list_all2 (appended_from_index E idx) pvs pvs'"
proof (induction pvs arbitrary: r pvs' evs)
  case Nil
  then show ?case by simp
next
  case (Cons pv rest)
  have self: "appended_from_index E idx x x" for x
    by (simp add: appended_from_index_def)
  have refl: "list_all2 (appended_from_index E idx) xs xs" for xs
    by (simp add: list_all2_refl self)
  show ?case
  proof (cases "hashes pv \<noteq> []")
    case True
    with Cons.prems obtain rest' where
      "fill_packages E idx rest = ((r, rest'), evs)" "pvs' = pv # rest'"
      by (auto split: prod.splits)
    with Cons.IH self show ?thesis by simp
  next
    case False
    then have h: "hashes pv = []" by simp
    show ?thesis
    proof (cases "get_package_hashes E idx (name pv) (locked_version pv)")
      case (Inl e)
      with h Cons.prems have "pvs' = pv # rest" by simp
      then show ?thesis using refl self by simp
    next
      case (Inr scanned)
      obtain r1 hs where ah: "append_hashes scanned [] = (r1, hs)" by force
      from append_hashes_shape[OF ah] obtain k where k:
        "hs = sha256_strings (take k scanned)"
        "\<forall>entry \<in> set (take k scanned). map_of entry ''sha256'' \<noteq> None" by auto
      have one: "appended_from_index E idx pv (pv\<lparr>hashes := hs\<rparr>)"
        unfolding appended_from_index_def using h Inr k by blast
      show ?thesis
      proof (cases r1)
        case None
        with h Inr ah Cons.prems obtain rest' where
          "fill_packages E idx rest = ((r, rest'), tl evs)" "pvs' = pv\<lparr>hashes := hs\<rparr> # rest'"
          by (auto split: prod.splits)
        with Cons.IH one show ?thesis by simp
      next
        case (Some e)
        with h Inr ah Cons.prems have "pvs' = pv\<lparr>hashes := hs\<rparr> # rest" by simp
        with one refl show ?thesis by simp
      qed
    qed
  qed
qed

lemma fill_packages_filled:
  "fill_packages E idx pvs = ((None, pvs'), evs) \<Longrightarrow>
   list_all2 (filled_from_index E idx) pvs pvs'"
proof (induction pvs arbitrary: pvs' evs)
  case Nil
  then show ?case by simp
next
  case (Cons pv rest)
  show ?case
  proof (cases "hashes pv \<noteq> []")
    case True
    with Cons.prems obtain rest' where
      "fill_packages E idx rest = ((None, rest'), evs)" "pvs' = pv # rest'"
      by (auto split: prod.splits)
    with Cons.IH True show ?thesis by (simp add: filled_from_index_def)
  next
    case False
    then have h: "hashes pv = []" by simp
    show ?thesis
    proof (cases "get_package_hashes E idx (name pv) (locked_version pv)")
      case (Inl e)
      with h Cons.prems show ?thesis by simp
    next
      case (Inr scanned)
      obtain r1 hs where ah: "append_hashes scanned [] = (r1, hs)" by force
      with h Inr Cons.prems have r1: "r1 = None" by (cases r1) auto
      from append_hashes_shape[OF ah] r1 have k:
        "hs = sha256_strings scanned"
        "\<forall>entry \<in> set scanned. map_of entry ''sha256'' \<noteq> None" by auto
      have one: "filled_from_index E idx pv (pv\<lparr>hashes := hs\<rparr>)"
        unfolding filled_from_index_def using h Inr k by simp
      from h Inr ah r1 Cons.prems obtain rest' where
          "fill_packages E idx rest = ((None, rest'), tl evs)" "pvs' = pv\<lparr>hashes := hs\<rparr> # rest'"
          by (auto split: prod.splits)
      with Cons.IH one show ?thesis by simp
    qed
  qed
qed

lemma fill_package_digests_packages:
  assumes "warehouses E = idx # ws"
    and "fill_packages E idx (all_packages gp) = ((r, pvs), evs)"
  shows "fill_package_digests E gp =
           ((r, gp\<lparr>pipfile_lock := \<lparr>packages = take (length (packages (pipfile_lock gp))) pvs,
                                    dev_packages = drop (length (packages (pipfile_lock gp))) pvs\<rparr>\<rparr>), evs)"
    and "all_packages (snd (fst (fill_package_digests E gp))) = pvs"
  using assms by (simp_all add: fill_package_digests_def all_packages_def)

lemma fill_package_digests_no_warehouse:
  "warehouses E = [] \<Longrightarrow>
   fill_package_digests E gp = ((Some (IndexError ''list index out of range''), gp), [])"
  by (simp add: fill_package_digests_def)

lemma fill_package_digests_cases:
  obtains (empty) "warehouses E = []"
      "fill_package_digests E gp = ((Some (IndexError ''list index out of range''), gp), [])"
  | (index) idx ws r pvs evs where "warehouses E = idx # ws"
      "fill_packages E idx (all_packages gp) = ((r, pvs), evs)"
      "fst (fst (fill_package_digests E gp)) = r"
      "all_packages (snd (fst (fill_package_digests E gp))) = pvs"
      "snd (fill_package_digests E gp) = evs"
proof (cases "warehouses E")
  case Nil
  then show ?thesis using empty fill_package_digests_no_warehouse by blast
next
  case (Cons idx ws)
  obtain r pvs evs where f: "fill_packages E idx (all_packages gp) = ((r, pvs), evs)"
    by (metis surj_pair)
  show ?thesis
    using index[OF Cons f] fill_package_digests_packages[OF Cons f] by simp
qed

text \<open>
  Claim C10. Every hash string the digest filling appends to a package version is
  \<^verbatim>\<open>sha256:\<close> followed by the sha256 value of an entry the package index returned for that
  package, in the order of the returned sequence; every lookup goes to the first configured
  warehouse \<open>idx\<close>. When the filling returns normally, a package version that had no hashes
  carries the strings of the whole returned sequence.
\<close>

theorem fill_package_digests_sha256_first_warehouse:
  assumes "warehouses E = idx # ws" and "fill_package_digests E gp = ((r, gp'), evs)"
  shows "list_all2 (appended_from_index E idx) (all_packages gp) (all_packages gp')
       \<and> (r = None \<longrightarrow> list_all2 (filled_from_index E idx) (all_packages gp) (all_packages gp'))
       \<and> evs = take (length evs) (map (lookup_event idx) (filter (\<lambda>pv. hashes pv = []) (all_packages gp)))"
proof -
  obtain r1 pvs evs1 where f: "fill_packages E idx (all_packages gp) = ((r1, pvs), evs1)"
    by (metis surj_pair)
  from fill_package_digests_packages[OF assms(1) f] assms(2)
  have eq: "r1 = r" "evs1 = evs" "all_packages gp' = pvs" by auto
  show ?thesis
    using fill_packages_appended[OF f] fill_packages_filled[of E idx "all_packages gp" pvs evs1]
      fill_packages_events[OF f] f eq by auto
qed

text \<open>
  Claim C3. Filling package digests is idempotent: a package version that already has at least
  one hash keeps its place and its hash list, the lookups issued are an initial part of the
  lookups for the package versions that have no hash (so none is issued for one that has), and
  a second pass, whatever the index then answers, leaves every hash list the first pass made
  non-empty as it is.
\<close>

theorem fill_package_digests_idempotent:
  "length (all_packages (filled E gp)) = length (all_packages gp)
 \<and> (\<forall>i < length (all_packages gp). hashes (all_packages gp ! i) \<noteq> [] \<longrightarrow>
        all_packages (filled E gp) ! i = all_packages gp ! i)
 \<and> (case warehouses E of
       [] \<Rightarrow> fill_events E gp = []
     | idx # ws \<Rightarrow> fill_events E gp =
         take (length (fill_events E gp))
           (map (lookup_event idx) (filter (\<lambda>pv. hashes pv = []) (all_packages gp))))
 \<and> (\<forall>i < length (all_packages gp). hashes (all_packages (filled E gp) ! i) \<noteq> [] \<longrightarrow>
        all_packages (filled E' (filled E gp)) ! i = all_packages (filled E gp) ! i)"
proof -
  have one: "length (all_packages (filled F p)) = length (all_packages p)
     \<and> (\<forall>i < length (all_packages p). hashes (all_packages p ! i) \<noteq> [] \<longrightarrow>
            all_packages (filled F p) ! i = all_packages p ! i)" for F p
  proof (cases rule: fill_package_digests_cases[of F p])
    case empty
    then show ?thesis by (simp add: filled_def)
  next
    case (index idx ws r pvs evs)
    then show ?thesis
      using fill_packages_length[OF index(2)] fill_packages_keeps[OF index(2)]
      by (simp add: filled_def)
  qed
  have ev: "(case warehouses E of
       [] \<Rightarrow> fill_events E gp = []
     | idx # ws \<Rightarrow> fill_events E gp =
         take (length (fill_events E gp))
           (map (lookup_event idx) (filter (\<lambda>pv. hashes pv = []) (all_packages gp))))"
  proof (cases rule: fill_package_digests_cases[of E gp])
    case empty
    then show ?thesis by (simp add: fill_events_def)
  next
    case (index idx ws r pvs evs)
    then show ?thesis
      using fill_packages_events[OF index(2)] by (simp add: fill_events_def)
  qed
  show ?thesis using one[of E gp] one[of E' "filled E gp"] ev by simp
qed

theorem fill_package_digests_sha256_first_warehouse_witness:
  "warehouses E1 = ''https://pypi.org/simple'' # []
 \<and> fill_package_digests E1 pA =
     ((None, pA\<lparr>pipfile_lock :=
         \<lparr>packages = [\<lparr>name = ''flask'', locked_version = ''1.0'',
                        hashes = [''sha256:aa'', ''sha256:bb'']\<rparr>],
          dev_packages = [\<lparr>name = ''pytest'', locked_version = ''5.0'',
                            hashes = [''sha256:cc'']\<rparr>]\<rparr>\<rparr>),
      [GetPackageHashes ''https://pypi.org/simple'' ''flask'' ''1.0''])
 \<and> list_all2 (filled_from_index E1 ''https://pypi.org/simple'') (all_packages pA)
       [\<lparr>name = ''flask'', locked_version = ''1.0'', hashes = [''sha256:aa'', ''sha256:bb'']\<rparr>,
        \<lparr>name = ''pytest'', locked_version = ''5.0'', hashes = [''sha256:cc'']\<rparr>]"
proof -
  have w: "warehouses E1 = ''https://pypi.org/simple'' # []"
    by (simp add: E1_def E0_def)
  have f: "fill_package_digests E1 pA =
     ((None, pA\<lparr>pipfile_lock :=
         \<lparr>packages = [\<lparr>name = ''flask'', locked_version = ''1.0'',
                        hashes = [''sha256:aa'', ''sha256:bb'']\<rparr>],
          dev_packages = [\<lparr>name = ''pytest'', locked_version = ''5.0'',
                            hashes = [''sha256:cc'']\<rparr>]\<rparr>\<rparr>),
      [GetPackageHashes ''https://pypi.org/simple'' ''flask'' ''1.0''])"
    by (simp add: fill_package_digests_def E1_def E0_def pA_def flask_def)
  show ?thesis
    using fill_package_digests_sha256_first_warehouse[OF w f] w f
    by (simp add: all_packages_def)
qed

theorem fill_package_digests_idempotent_witness:
  "0 < length (all_packages pA)
 \<and> hashes (all_packages (filled E1 pA) ! 0) = [''sha256:aa'', ''sha256:bb'']
 \<and> all_packages (filled E0 (filled E1 pA)) ! 0 = all_packages (filled E1 pA) ! 0
 \<and> fill_events E0 (filled E1 pA) = []"
proof -
  have f: "filled E1 pA = pA\<lparr>pipfile_lock :=
         \<lparr>packages = [\<lparr>name = ''flask'', locked_version = ''1.0'',
                        hashes = [''sha256:aa'', ''sha256:bb'']\<rparr>],
          dev_packages = [\<lparr>name = ''pytest'', locked_version = ''5.0'',
                            hashes = [''sha256:cc'']\<rparr>]\<rparr>\<rparr>"
    by (simp add: filled_def fill_package_digests_def E1_def E0_def pA_def flask_def)
  have l: "0 < length (all_packages pA)"
    by (simp add: all_packages_def pA_def)
  have h: "hashes (all_packages (filled E1 pA) ! 0) = [''sha256:aa'', ''sha256:bb'']"
    unfolding f by (simp add: all_packages_def)
  have e: "fill_events E0 (filled E1 pA) = []"
    unfolding f by (simp add: fill_events_def fill_package_digests_def E0_def pA_def)
  show ?thesis
    using fill_package_digests_idempotent[of E1 pA E0] l h e by simp
qed

section \<open>Properties of the generation loop\<close>





lemma walk_g0_all:
  "fst (walk g0 decision_all r) = [stack ''1.0'', stack ''1.1'', stack ''2.0'']"
  by (simp add: walk_def g0_def decision_all_def stack_def p0_def)

lemma fill_stack_E1:
  "fill_package_digests E1 (stack v) =
     ((None, stack_filled v), [GetPackageHashes ''https://pypi.org/simple'' ''flask'' v])"
  by (simp add: fill_package_digests_def E1_def E0_def stack_def stack_filled_def flask_def)

lemma fill_stack_E0:
  "fill_package_digests E0 (stack v) =
     (if v = ''1.1''
      then ((Some (ExternalError ''index unreachable''), stack v),
            [GetPackageHashes ''https://pypi.org/simple'' ''flask'' v])
      else ((None, stack_filled v), [GetPackageHashes ''https://pypi.org/simple'' ''flask'' v]))"
  by (simp add: fill_package_digests_def E0_def stack_def stack_filled_def flask_def)

lemma from_project_E1: "from_project E1 p = Inr g0" "from_project E0 p = Inr g0"
  by (simp_all add: E1_def E0_def)

lemma sink_ok_directory: "sink_ok (dm_amun_directory_output output)"
  by (simp add: sink_ok_def dm_amun_directory_output_def Let_def)



section \<open>Dry runs\<close>








section \<open>The entry point\<close>

text \<open>
  Claim C9. With a count bound that is zero or negative the call ends before any traversal:
  it raises the error for an unknown decision function, or logs the error and returns code 3.
  The dependency graph is not built, no project is generated and nothing is written to an output.
\<close>

theorem non_positive_count_aborts:
  assumes "c \<le> 0"
  shows "dependency_monkey ns E project output seed decision dry_run context (Some c) r0 =
           (case (case decision of None \<Rightarrow> None | Some d \<Rightarrow> map_of (DECISISON_FUNCTIONS E) d) of
              None \<Rightarrow> (Inl (ValueError ''Decision function is not known''), [])
            | Some decision_function \<Rightarrow>
                (Inr (ExitCode 3),
                 [Seed seed, Log ERROR ''Number of stacks has to be a positive integer'']))
       \<and> (\<forall>ev \<in> set (snd (dependency_monkey ns E project output seed decision dry_run context (Some c) r0)).
             \<not> is_FromProject ev \<and> \<not> is_Generated ev \<and> \<not> writes_output ev)"
  using assms by (simp add: dependency_monkey_def split: option.splits)

theorem non_positive_count_aborts_witness:
  "(0::int) \<le> 0
 \<and> dependency_monkey module_globals E1 p0 ''stacks'' (Some 7) (Some ''all'') False None (Some 0) 0 =
     (Inr (ExitCode 3), [Seed (Some 7), Log ERROR ''Number of stacks has to be a positive integer''])"
proof -
  have h: "(0::int) \<le> 0" by simp
  show ?thesis
    using non_positive_count_aborts[OF h, of module_globals E1 p0 "''stacks''" "Some 7" "Some ''all''" False None 0]
    by (simp add: DECISISON_FUNCTIONS_def)
qed


section \<open>A failing hash lookup\<close>

lemma fill_packages_append:
  "fill_packages E idx pre = ((None, pre'), evs) \<Longrightarrow>
   fill_packages E idx (pre @ xs) =
     (case fill_packages E idx xs of ((r, xs'), evs') \<Rightarrow> ((r, pre' @ xs'), evs @ evs'))"
proof (induction pre arbitrary: pre' evs)
  case Nil
  then show ?case by (auto split: prod.splits)
next
  case (Cons pv pre)
  show ?case
  proof (cases "hashes pv \<noteq> []")
    case True
    with Cons.prems obtain t where t: "fill_packages E idx pre = ((None, t), evs)" "pre' = pv # t"
      by (auto split: prod.splits)
    from Cons.IH[OF t(1)] True t(2) show ?thesis by (simp split: prod.splits)
  next
    case False
    then have h: "hashes pv = []" by simp
    show ?thesis
    proof (cases "get_package_hashes E idx (name pv) (locked_version pv)")
      case (Inl e)
      with h Cons.prems show ?thesis by simp
    next
      case (Inr scanned)
      obtain r1 hs where ah: "append_hashes scanned [] = (r1, hs)" by force
      with h Inr Cons.prems have r1: "r1 = None" by (cases r1) auto
      from h Inr ah r1 Cons.prems obtain t where
        t: "fill_packages E idx pre = ((None, t), tl evs)" "pre' = pv\<lparr>hashes := hs\<rparr> # t"
          "evs = GetPackageHashes idx (name pv) (locked_version pv) # tl evs"
        by (auto split: prod.splits)
      from Cons.IH[OF t(1)] h Inr ah r1 t(2) t(3) show ?thesis
        by (simp split: prod.splits)
    qed
  qed
qed

text \<open>
  Claim C2, as amended. When the lookup of the hashes of a package version fails, that package
  version is left without hashes and the package versions after it are left untouched, but the
  failure is not isolated: the exception leaves the hash filling and the generation loop, the
  output function is not called for the project, the remaining projects of the walk are not
  processed and no result is returned.
\<close>

theorem hash_lookup_failure_ends_run:
  assumes "warehouses E = idx # ws"
    and "all_packages p = pre @ pv # post"
    and "fill_packages E idx pre = ((None, pre'), evs)"
    and "hashes pv = []"
    and "get_package_hashes E idx (name pv) (locked_version pv) = Inl e"
  shows "fst (fst (fill_package_digests E p)) = Some e
       \<and> all_packages (filled E p) = pre' @ pv # post
       \<and> fill_events E p = evs @ [lookup_event idx pv]
       \<and> dm_loop E f count dry (p # rest) computed out =
           (Inl e, Generated p # evs @ [lookup_event idx pv])"
proof -
  have one: "fill_packages E idx (pv # post) = ((Some e, pv # post), [lookup_event idx pv])"
    using assms(4,5) by (simp add: lookup_event_def)
  have all: "fill_packages E idx (all_packages p) =
      ((Some e, pre' @ pv # post), evs @ [lookup_event idx pv])"
    unfolding assms(2) fill_packages_append[OF assms(3)] one by simp
  from fill_package_digests_packages[OF assms(1) all]
  have f: "fill_package_digests E p =
      ((Some e, p\<lparr>pipfile_lock :=
           \<lparr>packages = take (length (packages (pipfile_lock p))) (pre' @ pv # post),
            dev_packages = drop (length (packages (pipfile_lock p))) (pre' @ pv # post)\<rparr>\<rparr>),
       evs @ [lookup_event idx pv])"
    and a: "all_packages (snd (fst (fill_package_digests E p))) = pre' @ pv # post"
    by simp_all
  show ?thesis
    using f a by (simp add: filled_def fill_events_def)
qed

lemma format_05d_1: "format_05d 1 = ''00001''"
  by code_simp

lemma format_05d_2: "format_05d 2 = ''00002''"
  by code_simp

lemma directory_output_stacks:
  "dm_amun_directory_output ''stacks'' gp 1 =
      (Inr (Some ''stacks/00001''),
       [Log DEBUG ''Writing stack %d'', MakeDirs ''stacks/00001'',
        ToFiles gp ''stacks/00001/Pipfile'' ''stacks/00001/Pipfile.lock''])"
  "dm_amun_directory_output ''stacks'' gp 2 =
      (Inr (Some ''stacks/00002''),
       [Log DEBUG ''Writing stack %d'', MakeDirs ''stacks/00002'',
        ToFiles gp ''stacks/00002/Pipfile'' ''stacks/00002/Pipfile.lock''])"
  by (simp_all add: dm_amun_directory_output_def Let_def format_05d_1 format_05d_2
        os_path_join_def startswith_def)

lemma decision_all_known: "map_of (DECISISON_FUNCTIONS E) ''all'' = Some decision_all"
  by (simp add: DECISISON_FUNCTIONS_def)

lemma isdir_E0: "isdir E0 d = False" "isdir E1 d = False"
  by (simp_all add: E0_def E1_def)

theorem hash_lookup_failure_ends_run_witness:
  "warehouses E0 = ''https://pypi.org/simple'' # []
 \<and> all_packages (stack ''1.1'') = [] @ flask ''1.1'' # []
 \<and> hashes (flask ''1.1'') = []
 \<and> get_package_hashes E0 ''https://pypi.org/simple'' (name (flask ''1.1'')) (locked_version (flask ''1.1''))
     = Inl (ExternalError ''index unreachable'')
 \<and> all_packages (filled E0 (stack ''1.1'')) = [flask ''1.1'']
 \<and> dm_loop E0 null_sink None False [stack ''1.1'', stack ''2.0''] 0 [] =
     (Inl (ExternalError ''index unreachable''),
      [Generated (stack ''1.1''), GetPackageHashes ''https://pypi.org/simple'' ''flask'' ''1.1''])"
proof -
  have h1: "warehouses E0 = ''https://pypi.org/simple'' # []" by (simp add: E0_def)
  have h2: "all_packages (stack ''1.1'') = [] @ flask ''1.1'' # []"
    by (simp add: all_packages_def stack_def)
  have h3: "fill_packages E0 ''https://pypi.org/simple'' [] = ((None, []), [])" by simp
  have h4: "hashes (flask ''1.1'') = []" by (simp add: flask_def)
  have h5: "get_package_hashes E0 ''https://pypi.org/simple'' (name (flask ''1.1''))
      (locked_version (flask ''1.1'')) = Inl (ExternalError ''index unreachable'')"
    by (simp add: E0_def flask_def)
  show ?thesis
    using hash_lookup_failure_ends_run[OF h1 h2 h3 h4 h5, of null_sink None False "[stack ''2.0'']" 0 "[]"]
      h1 h2 h4 h5
    by (simp add: lookup_event_def flask_def)
qed

theorem hash_lookup_failure_counterexample:
  "length (fst (walk g0 decision_all (seed_state E0 7))) = 3
 \<and> dependency_monkey module_globals E0 p0 ''stacks'' (Some 7) (Some ''all'') False None None 0 =
     (Inl (ExternalError ''index unreachable''),
      [Seed (Some 7), MakeDirs ''stacks'', FromProject p0,
       Generated (stack ''1.0''), GetPackageHashes ''https://pypi.org/simple'' ''flask'' ''1.0'',
       Log DEBUG ''Writing stack %d'', MakeDirs ''stacks/00001'',
       ToFiles (stack_filled ''1.0'') ''stacks/00001/Pipfile'' ''stacks/00001/Pipfile.lock'',
       Generated (stack ''1.1''), GetPackageHashes ''https://pypi.org/simple'' ''flask'' ''1.1''])"
  by (simp add: dependency_monkey_def decision_all_known startswith_def truthy_def isdir_E0
        run_with_def do_dependency_monkey_def from_project_E1 walk_g0_all fill_stack_E0
        dispatch_def directory_output_stacks)

section \<open>Unbound names\<close>

lemma unbound_names:
  "''amun_inspect'' \<notin> set module_globals" "''json'' \<notin> set module_globals"
  "''sys'' \<notin> set module_globals"
  by (simp_all add: module_globals_def)

lemma amun_wrapper_unbound:
  "''amun_inspect'' \<notin> set ns \<Longrightarrow>
   dm_amun_inspect_wrapper ns E output (JDict kvs) gp k =
     (Inr None, [Log ERROR ''Failed to submit stack to Amun analysis: %s''])"
  by (simp add: dm_amun_inspect_wrapper_def)

lemma amun_wrapper_success:
  "''amun_inspect'' \<in> set ns \<Longrightarrow>
   amun_inspect E output (AList.update ''python'' (to_dict E gp) kvs) = Inr response \<Longrightarrow>
   map_of response ''inspection_id'' = Some i \<Longrightarrow>
   dm_amun_inspect_wrapper ns E output (JDict kvs) gp k =
     (Inr (Some i),
      [AmunInspect output (AList.update ''python'' (to_dict E gp) kvs),
       Log INFO ''Submitted Amun inspection #%d: %r'', Log DEBUG ''Full Amun response: %s''])"
  by (simp add: dm_amun_inspect_wrapper_def)

lemma amun_wrapper_failure:
  "''amun_inspect'' \<in> set ns \<Longrightarrow>
   amun_inspect E output (AList.update ''python'' (to_dict E gp) kvs) = Inl exc \<Longrightarrow>
   dm_amun_inspect_wrapper ns E output (JDict kvs) gp k =
     (Inr None,
      [AmunInspect output (AList.update ''python'' (to_dict E gp) kvs),
       Log ERROR ''Failed to submit stack to Amun analysis: %s''])"
  by (simp add: dm_amun_inspect_wrapper_def)

lemma stdout_output_bound:
  "''json'' \<in> set ns \<Longrightarrow> ''sys'' \<in> set ns \<Longrightarrow>
   dm_stdout_output ns E gp k = (Inr None, [StdoutWrite (json_dump E (to_dict E gp))])"
  by (simp add: dm_stdout_output_def)

lemma stdout_output_unbound:
  "dm_stdout_output module_globals E gp k = (Inl (NameError ''json''), [])"
  by (simp add: dm_stdout_output_def unbound_names)

text \<open>
  Claim C6 on the code. The module never binds the name \<^verbatim>\<open>amun_inspect\<close>, so every
  submission raises \<^verbatim>\<open>NameError\<close> inside the \<^verbatim>\<open>try\<close> block before the service is called:
  with a service that would accept the stack and return an inspection identifier, the run
  logs a failure, calls no service and records no output entry.
\<close>

theorem amun_submission_never_made:
  "amun_inspect E1 ''https://amun.example/api''
      (AList.update ''python'' (to_dict E1 (stack_filled ''1.0'')) []) =
     Inr [(''inspection_id'', ''inspection-1'')]
 \<and> dependency_monkey module_globals E1 p0 ''https://amun.example/api'' (Some 7) (Some ''all'')
       False None (Some 1) 0 =
     (Inr (Stacks \<lparr>res_output = [], res_computed = 1\<rparr>),
      [Seed (Some 7), Log WARNING ''Context to Amun API is empty'', FromProject p0,
       Generated (stack ''1.0''), GetPackageHashes ''https://pypi.org/simple'' ''flask'' ''1.0'',
       Log ERROR ''Failed to submit stack to Amun analysis: %s''])"
proof -
  have s: "amun_inspect E1 u c = Inr [(''inspection_id'', ''inspection-1'')]" for u c
    by (simp add: E1_def E0_def)
  show ?thesis
    by (simp add: s dependency_monkey_def decision_all_known startswith_def truthy_def
        run_with_def do_dependency_monkey_def from_project_E1 walk_g0_all fill_stack_E1
        dispatch_def amun_wrapper_unbound unbound_names)
qed

text \<open>
  Claim C8 on the code. The module never binds the names \<^verbatim>\<open>json\<close> and \<^verbatim>\<open>sys\<close>, so the
  output function for destination \<^verbatim>\<open>-\<close> raises \<^verbatim>\<open>NameError\<close> on the first generated
  project: nothing is written to the standard output and the run ends with the exception.
\<close>

theorem stdout_output_raises_name_error:
  "dependency_monkey module_globals E1 p0 ''-'' (Some 7) (Some ''all'') False None None 0 =
     (Inl (NameError ''json''),
      [Seed (Some 7), FromProject p0,
       Generated (stack ''1.0''), GetPackageHashes ''https://pypi.org/simple'' ''flask'' ''1.0''])"
  by (simp add: dependency_monkey_def decision_all_known startswith_def truthy_def
        run_with_def do_dependency_monkey_def from_project_E1 walk_g0_all fill_stack_E1
        dispatch_def stdout_output_unbound)

end
